theory Spec2Isabelle
  imports Main
begin

section \<open>The static-site stack of main.go\<close>

text \<open>
  main.go is one function: the closure handed to \<open>pulumi.Run\<close>. It reads the site
  directory, looks the DNS zone up and then registers a fixed sequence of resources with
  the Pulumi context, returning the first error it meets. The embedding keeps that shape:
  the argument structs of the SDK are records with the fields main.go sets, a registered
  resource is a value of the datatype \<open>Resource\<close>, the Pulumi context is a record holding
  the calls made so far and the exports, and the outside (file system, zone lookup,
  engine) is a record of functions, \<open>World\<close>, that decides which calls fail.
\<close>

subsection \<open>The structs of main.go\<close>

record Project =
  name :: string

record Environment =
  name :: string

record Site =
  dir :: string

record Domain =
  name :: string

record Tags =
  tags :: "string \<rightharpoonup> string"

record WebBucket =
  name :: string
  indexDocument :: string
  errorDocument :: string

subsection \<open>Values handed to the SDK\<close>

text \<open>Go's \<open>error\<close> values are opaque to main.go: it only tests them against nil.\<close>

datatype error = Error string

text \<open>
  A resource handle, as returned by the \<open>New...\<close> constructors: the kind of the
  resource and its logical name.
\<close>

datatype Kind =
    KBucket | KBucketPublicAccessBlock | KBucketObject | KCertificate | KRecord
  | KOriginAccessIdentity | KDistribution | KBucketPolicy

datatype Handle = Handle Kind string

text \<open>
  \<open>certificate.DomainValidationOptions.Index(pulumi.Int(i)).ResourceRecordName()\<close>:
  an array output of the certificate, one element of it, one pointer field of that.
\<close>

datatype ValidationOptionArrayOutput = DomainValidationOptions Handle

datatype ValidationOptionOutput = Index ValidationOptionArrayOutput int

datatype StringPtrOutput =
    ResourceRecordName ValidationOptionOutput
  | ResourceRecordValue ValidationOptionOutput

text \<open>
  A string input of the SDK: a literal (\<open>pulumi.String\<close>), an output property of a
  registered resource, a dereferenced pointer output (\<open>.Elem()\<close>), or
  \<open>pulumi.Sprintf("%v/*", x)\<close>, the output \<open>x\<close> followed by a literal suffix.
\<close>

datatype StringInput =
    String string
  | Output Handle string
  | Elem StringPtrOutput
  | Sprintf_suffix StringInput string

definition ID :: "Handle \<Rightarrow> StringInput" where
  "ID r = Output r ''id''"

definition Arn :: "Handle \<Rightarrow> StringInput" where
  "Arn r = Output r ''arn''"

definition BucketRegionalDomainName :: "Handle \<Rightarrow> StringInput" where
  "BucketRegionalDomainName r = Output r ''bucketRegionalDomainName''"

definition CloudfrontAccessIdentityPath :: "Handle \<Rightarrow> StringInput" where
  "CloudfrontAccessIdentityPath r = Output r ''cloudfrontAccessIdentityPath''"

definition IamArn :: "Handle \<Rightarrow> StringInput" where
  "IamArn r = Output r ''iamArn''"

definition DistributionDomainName :: "Handle \<Rightarrow> StringInput" where
  "DistributionDomainName r = Output r ''domainName''"

definition HostedZoneId :: "Handle \<Rightarrow> StringInput" where
  "HostedZoneId r = Output r ''hostedZoneId''"

datatype Asset = NewFileAsset string

subsection \<open>Argument structs, with the fields main.go sets\<close>

record BucketWebsiteArgs =
  IndexDocument :: StringInput
  ErrorDocument :: StringInput

record BucketArgs =
  Bucket :: StringInput
  Website :: BucketWebsiteArgs
  Tags :: "string \<rightharpoonup> string"

record BucketPublicAccessBlockArgs =
  Bucket :: StringInput
  BlockPublicAcls :: bool
  BlockPublicPolicy :: bool
  IgnorePublicAcls :: bool
  RestrictPublicBuckets :: bool

record BucketObjectArgs =
  Key :: StringInput
  Bucket :: StringInput
  Source :: Asset
  ContentType :: StringInput
  Tags :: "string \<rightharpoonup> string"

record CertificateArgs =
  DomainName :: StringInput
  ValidationMethod :: StringInput
  SubjectAlternativeNames :: "StringInput list"
  Tags :: "string \<rightharpoonup> string"

record RecordAliasArgs =
  Name :: StringInput
  ZoneId :: StringInput
  EvaluateTargetHealth :: bool

text \<open>
  The validation records set \<open>Ttl\<close> and \<open>Records\<close>, the alias records set
  \<open>Aliases\<close>; a field left out in Go is nil: \<open>None\<close>, or the empty list.
\<close>

record RecordArgs =
  ZoneId :: StringInput
  Name :: StringInput
  Type :: StringInput
  Ttl :: "int option"
  Records :: "StringInput list"
  Aliases :: "RecordAliasArgs list"

record OriginAccessIdentityArgs =
  Comment :: StringInput

record DistributionOriginS3OriginConfigArgs =
  OriginAccessIdentity :: StringInput

record DistributionOriginArgs =
  DomainName :: StringInput
  OriginId :: StringInput
  S3OriginConfig :: DistributionOriginS3OriginConfigArgs

record DistributionDefaultCacheBehaviorForwardedValuesCookiesArgs =
  Forward :: StringInput

record DistributionDefaultCacheBehaviorForwardedValuesArgs =
  QueryString :: bool
  Cookies :: DistributionDefaultCacheBehaviorForwardedValuesCookiesArgs

record DistributionDefaultCacheBehaviorArgs =
  AllowedMethods :: "StringInput list"
  CachedMethods :: "StringInput list"
  TargetOriginId :: StringInput
  ForwardedValues :: DistributionDefaultCacheBehaviorForwardedValuesArgs
  ViewerProtocolPolicy :: StringInput
  MinTtl :: int
  DefaultTtl :: int
  MaxTtl :: int

record DistributionRestrictionsGeoRestrictionArgs =
  RestrictionType :: StringInput

record DistributionRestrictionsArgs =
  GeoRestriction :: DistributionRestrictionsGeoRestrictionArgs

record DistributionViewerCertificateArgs =
  CloudfrontDefaultCertificate :: bool
  AcmCertificateArn :: StringInput
  SslSupportMethod :: StringInput
  MinimumProtocolVersion :: StringInput

record DistributionArgs =
  Origins :: "DistributionOriginArgs list"
  Enabled :: bool
  HttpVersion :: StringInput
  IsIpv6Enabled :: bool
  DefaultRootObject :: StringInput
  Aliases :: "StringInput list"
  DefaultCacheBehavior :: DistributionDefaultCacheBehaviorArgs
  PriceClass :: StringInput
  Restrictions :: DistributionRestrictionsArgs
  ViewerCertificate :: DistributionViewerCertificateArgs
  Tags :: "string \<rightharpoonup> string"

record GetPolicyDocumentStatementPrincipalArgs =
  Type :: StringInput
  Identifiers :: "StringInput list"

record GetPolicyDocumentStatementArgs =
  Sid :: StringInput
  Principals :: "GetPolicyDocumentStatementPrincipalArgs list"
  Actions :: "StringInput list"
  Resources :: "StringInput list"

record GetPolicyDocumentOutputArgs =
  PolicyId :: StringInput
  Version :: StringInput
  Statements :: "GetPolicyDocumentStatementArgs list"

text \<open>
  \<open>iam.GetPolicyDocumentOutput\<close> returns an output and no error; the policy argument
  of the bucket policy is that output mapped to its \<open>Json\<close> field.
\<close>

datatype GetPolicyDocumentResultOutput = GetPolicyDocumentOutput GetPolicyDocumentOutputArgs

datatype PolicyInput = Json GetPolicyDocumentResultOutput

record BucketPolicyArgs =
  Bucket :: StringInput
  Policy :: PolicyInput

record LookupZoneArgs =
  Name :: "string option"

record LookupZoneResult =
  Id :: string

record DirEntry =
  Name :: string
  IsDir :: bool

subsection \<open>Registered resources, the context and the outside world\<close>

datatype Resource =
    s3_Bucket string BucketArgs
  | s3_BucketPublicAccessBlock string BucketPublicAccessBlockArgs
  | s3_BucketObject string BucketObjectArgs
  | acm_Certificate string CertificateArgs
  | route53_Record string RecordArgs
  | cloudfront_OriginAccessIdentity string OriginAccessIdentityArgs
  | cloudfront_Distribution string DistributionArgs
  | s3_BucketPolicy string BucketPolicyArgs

text \<open>
  The context records every registration main.go attempts, in order, with the answer
  it got (\<open>None\<close>: no error), and the exports.
\<close>

record Context =
  calls :: "(Resource \<times> error option) list"
  exports :: "(string \<times> StringInput) list"

definition NewContext :: Context where
  "NewContext = \<lparr>calls = [], exports = []\<rparr>"

text \<open>
  What main.go cannot control: the directory listing, the zone lookup, and whether the
  engine accepts a registration (which may depend on everything registered before).
\<close>

record World =
  os_ReadDir :: "string \<Rightarrow> error + DirEntry list"
  route53_LookupZone :: "LookupZoneArgs \<Rightarrow> error + LookupZoneResult"
  engine :: "(Resource \<times> error option) list \<Rightarrow> Resource \<Rightarrow> error option"

definition RegisterResource ::
    "World \<Rightarrow> Context \<Rightarrow> Kind \<Rightarrow> string \<Rightarrow> Resource \<Rightarrow> (error + Handle) \<times> Context" where
  "RegisterResource w ctx k n r =
     (let err = engine w (calls ctx) r;
          ctx' = ctx\<lparr>calls := calls ctx @ [(r, err)]\<rparr>
      in case err of Some e \<Rightarrow> (Inl e, ctx') | None \<Rightarrow> (Inr (Handle k n), ctx'))"

definition NewBucket where
  "NewBucket w ctx n args = RegisterResource w ctx KBucket n (s3_Bucket n args)"

definition NewBucketPublicAccessBlock where
  "NewBucketPublicAccessBlock w ctx n args =
     RegisterResource w ctx KBucketPublicAccessBlock n (s3_BucketPublicAccessBlock n args)"

definition NewBucketObject where
  "NewBucketObject w ctx n args = RegisterResource w ctx KBucketObject n (s3_BucketObject n args)"

definition NewCertificate where
  "NewCertificate w ctx n args = RegisterResource w ctx KCertificate n (acm_Certificate n args)"

definition NewRecord where
  "NewRecord w ctx n args = RegisterResource w ctx KRecord n (route53_Record n args)"

definition NewOriginAccessIdentity where
  "NewOriginAccessIdentity w ctx n args =
     RegisterResource w ctx KOriginAccessIdentity n (cloudfront_OriginAccessIdentity n args)"

definition NewDistribution where
  "NewDistribution w ctx n args =
     RegisterResource w ctx KDistribution n (cloudfront_Distribution n args)"

definition NewBucketPolicy where
  "NewBucketPolicy w ctx n args = RegisterResource w ctx KBucketPolicy n (s3_BucketPolicy n args)"

definition Export :: "Context \<Rightarrow> string \<Rightarrow> StringInput \<Rightarrow> Context" where
  "Export ctx k v = ctx\<lparr>exports := exports ctx @ [(k, v)]\<rparr>"

subsection \<open>Formatting\<close>

text \<open>
  \<open>fmt.Sprintf\<close> is called with fixed formats whose verbs are \<open>%s\<close> on strings and
  one \<open>%d\<close> on the loop counter; each call is written as the concatenation it
  computes. \<open>Itoa\<close> is the decimal rendering \<open>%d\<close> gives an int.
\<close>

definition digit :: "nat \<Rightarrow> char" where
  "digit d = ''0123456789'' ! d"

function digits :: "nat \<Rightarrow> string" where
  "digits n = (if n < 10 then [digit n] else digits (n div 10) @ [digit (n mod 10)])"
  by pat_completeness auto
termination
  by (relation "measure (\<lambda>n. n)") auto

definition Itoa :: "int \<Rightarrow> string" where
  "Itoa i = (if i < 0 then ''-'' @ digits (nat (- i)) else digits (nat i))"

subsection \<open>The body of main\<close>

text \<open>The switch on \<open>environment.name\<close>.\<close>

definition priceClass :: "string \<Rightarrow> string" where
  "priceClass environment_name =
     (if environment_name = ''dev'' then ''PriceClass_100''
      else if environment_name = ''prod'' then ''PriceClass_All''
      else ''PriceClass_100'')"

text \<open>
  \<open>x, err := New...(ctx, ...); if err != nil { return err }\<close>: on an error the function
  returns it, with the context as the failed call left it; otherwise the rest of the body
  runs with the handle. \<open>and_then\<close> is the same for a loop, which yields no handle.
\<close>

definition or_return ::
    "(error + 'a) \<times> Context \<Rightarrow> ('a \<Rightarrow> Context \<Rightarrow> error option \<times> Context)
      \<Rightarrow> error option \<times> Context" where
  "or_return r rest =
     (case r of (Inl err, ctx) \<Rightarrow> (Some err, ctx) | (Inr x, ctx) \<Rightarrow> rest x ctx)"

definition and_then ::
    "error option \<times> Context \<Rightarrow> (Context \<Rightarrow> error option \<times> Context)
      \<Rightarrow> error option \<times> Context" where
  "and_then r rest =
     (case r of (Some err, ctx) \<Rightarrow> (Some err, ctx) | (None, ctx) \<Rightarrow> rest ctx)"

text \<open>The loop over \<open>files\<close>: one bucket object per directory entry.\<close>

fun upload_files ::
    "World \<Rightarrow> Context \<Rightarrow> Site \<Rightarrow> Tags \<Rightarrow> Handle \<Rightarrow> DirEntry list \<Rightarrow> error option \<times> Context" where
  "upload_files w ctx site tgs bucket [] = (None, ctx)"
| "upload_files w ctx site tgs bucket (file # files) =
     or_return (NewBucketObject w ctx (DirEntry.Name file)
        \<lparr>Key = String (DirEntry.Name file),
         BucketObjectArgs.Bucket = ID bucket,
         Source = NewFileAsset (dir site @ ''/'' @ DirEntry.Name file),
         ContentType = String ''text/html'',
         BucketObjectArgs.Tags = tags tgs\<rparr>) (\<lambda>_ ctx.
     upload_files w ctx site tgs bucket files)"

text \<open>The loop \<open>for i := 0; i <= 1; i++\<close>: the validation CNAME records.\<close>

function validation_records ::
    "World \<Rightarrow> Context \<Rightarrow> Project \<Rightarrow> LookupZoneResult \<Rightarrow> Handle \<Rightarrow> int \<Rightarrow> error option \<times> Context" where
  "validation_records w ctx project domainZone certificate i =
     (if i \<le> 1 then
        or_return (NewRecord w ctx (Project.name project @ ''Cname'' @ Itoa i)
           \<lparr>RecordArgs.ZoneId = String (Id domainZone),
            RecordArgs.Name = Elem (ResourceRecordName (Index (DomainValidationOptions certificate) i)),
            RecordArgs.Type = String ''CNAME'',
            Ttl = Some 60,
            Records = [Elem (ResourceRecordValue (Index (DomainValidationOptions certificate) i))],
            RecordArgs.Aliases = []\<rparr>) (\<lambda>_ ctx.
        validation_records w ctx project domainZone certificate (i + 1))
      else (None, ctx))"
  by pat_completeness auto
termination
  by (relation "measure (\<lambda>(w, ctx, project, domainZone, certificate, i). nat (2 - i))") auto

text \<open>
  The loop over \<open>[]string{"A", "AAAA"}\<close>: for each record type, the record of the bare
  domain and then the record of the \<open>www\<close> name.
\<close>

fun alias_records ::
    "World \<Rightarrow> Context \<Rightarrow> Project \<Rightarrow> Domain \<Rightarrow> LookupZoneResult \<Rightarrow> Handle \<Rightarrow> string list
      \<Rightarrow> error option \<times> Context" where
  "alias_records w ctx project domain domainZone cloudFrontDist [] = (None, ctx)"
| "alias_records w ctx project domain domainZone cloudFrontDist (record # records) =
     or_return (NewRecord w ctx (Project.name project @ record)
        \<lparr>RecordArgs.ZoneId = String (Id domainZone),
         RecordArgs.Name = String (Domain.name domain),
         RecordArgs.Type = String record,
         Ttl = None,
         Records = [],
         RecordArgs.Aliases =
           [\<lparr>RecordAliasArgs.Name = DistributionDomainName cloudFrontDist,
             RecordAliasArgs.ZoneId = HostedZoneId cloudFrontDist,
             EvaluateTargetHealth = True\<rparr>]\<rparr>) (\<lambda>_ ctx.
     or_return (NewRecord w ctx (''www'' @ Project.name project @ record)
        \<lparr>RecordArgs.ZoneId = String (Id domainZone),
         RecordArgs.Name = String (''www.'' @ Domain.name domain),
         RecordArgs.Type = String record,
         Ttl = None,
         Records = [],
         RecordArgs.Aliases =
           [\<lparr>RecordAliasArgs.Name = DistributionDomainName cloudFrontDist,
             RecordAliasArgs.ZoneId = HostedZoneId cloudFrontDist,
             EvaluateTargetHealth = True\<rparr>]\<rparr>) (\<lambda>_ ctx.
     alias_records w ctx project domain domainZone cloudFrontDist records))"

text \<open>
  The closure passed to \<open>pulumi.Run\<close>, from the switch on: every \<open>if err != nil
  { return err }\<close> is the \<open>Inl\<close> branch of a case. The four configuration structs are
  arguments here and get the values main.go gives them in \<open>main\<close> below.
\<close>

definition stack ::
    "Project \<Rightarrow> Environment \<Rightarrow> Site \<Rightarrow> Domain \<Rightarrow> World \<Rightarrow> Context \<Rightarrow> error option \<times> Context" where
  "stack project environment site domain w ctx =
    (let tgs = \<lparr>tags = [''project'' \<mapsto> Project.name project,
                         ''environment'' \<mapsto> Environment.name environment]\<rparr>;
         priceClass = priceClass (Environment.name environment);
         wb = \<lparr>WebBucket.name = ''www.'' @ Domain.name domain,
               indexDocument = ''index.html'',
               errorDocument = ''error.html''\<rparr>
     in
     case os_ReadDir w (dir site @ ''/'') of
       Inl err \<Rightarrow> (Some err, ctx)
     | Inr files \<Rightarrow>
     (case route53_LookupZone w \<lparr>LookupZoneArgs.Name = Some (Domain.name domain)\<rparr> of
       Inl err \<Rightarrow> (Some err, ctx)
     | Inr domainZone \<Rightarrow>
     or_return (NewBucket w ctx (Project.name project @ ''Bucket'')
        \<lparr>BucketArgs.Bucket = String (WebBucket.name wb),
         Website = \<lparr>IndexDocument = String (indexDocument wb),
                    ErrorDocument = String (errorDocument wb)\<rparr>,
         BucketArgs.Tags = tags tgs\<rparr>) (\<lambda>bucket ctx.
     or_return (NewBucketPublicAccessBlock w ctx (Project.name project @ ''BucketNoPublic'')
        \<lparr>BucketPublicAccessBlockArgs.Bucket = ID bucket,
         BlockPublicAcls = True,
         BlockPublicPolicy = True,
         IgnorePublicAcls = True,
         RestrictPublicBuckets = True\<rparr>) (\<lambda>_ ctx.
     and_then (upload_files w ctx site tgs bucket files) (\<lambda>ctx.
     or_return (NewCertificate w ctx (Project.name project @ ''Cert'')
        \<lparr>CertificateArgs.DomainName = String (Domain.name domain),
         ValidationMethod = String ''DNS'',
         SubjectAlternativeNames = [String (''www.'' @ Domain.name domain)],
         CertificateArgs.Tags = tags tgs\<rparr>) (\<lambda>certificate ctx.
     and_then (validation_records w ctx project domainZone certificate 0) (\<lambda>ctx.
     or_return (NewOriginAccessIdentity w ctx (Project.name project @ ''OriginAccessId'')
        \<lparr>Comment = String (Project.name project)\<rparr>) (\<lambda>originAccessId ctx.
     or_return (NewDistribution w ctx (Project.name project @ ''Distribution'')
        \<lparr>Origins =
           [\<lparr>DistributionOriginArgs.DomainName = BucketRegionalDomainName bucket,
             OriginId = ID bucket,
             S3OriginConfig =
               \<lparr>OriginAccessIdentity = CloudfrontAccessIdentityPath originAccessId\<rparr>\<rparr>],
         Enabled = True,
         HttpVersion = String ''http2and3'',
         IsIpv6Enabled = True,
         DefaultRootObject = String ''index.html'',
         DistributionArgs.Aliases =
           [String (Domain.name domain), String (''www.'' @ Domain.name domain)],
         DefaultCacheBehavior =
           \<lparr>AllowedMethods = [String ''GET'', String ''HEAD''],
            CachedMethods = [String ''GET'', String ''HEAD''],
            TargetOriginId = ID bucket,
            ForwardedValues =
              \<lparr>QueryString = False,
               Cookies = \<lparr>Forward = String ''none''\<rparr>\<rparr>,
            ViewerProtocolPolicy = String ''redirect-to-https'',
            MinTtl = 0,
            DefaultTtl = 3600,
            MaxTtl = 86400\<rparr>,
         PriceClass = String priceClass,
         Restrictions =
           \<lparr>GeoRestriction = \<lparr>RestrictionType = String ''none''\<rparr>\<rparr>,
         ViewerCertificate =
           \<lparr>CloudfrontDefaultCertificate = False,
            AcmCertificateArn = Arn certificate,
            SslSupportMethod = String ''sni-only'',
            MinimumProtocolVersion = String ''TLSv1.2_2021''\<rparr>,
         DistributionArgs.Tags = tags tgs\<rparr>) (\<lambda>cloudFrontDist ctx.
     and_then (alias_records w ctx project domain domainZone cloudFrontDist [''A'', ''AAAA'']) (\<lambda>ctx.
     let bucketPolicy = GetPolicyDocumentOutput
        \<lparr>PolicyId = String ''PolicyForCloudFrontPrivateContent'',
         Version = String ''2008-10-17'',
         Statements =
           [\<lparr>Sid = String ''1'',
             Principals =
               [\<lparr>GetPolicyDocumentStatementPrincipalArgs.Type = String ''AWS'',
                 Identifiers = [IamArn originAccessId]\<rparr>],
             Actions = [String ''s3:GetObject''],
             Resources = [Sprintf_suffix (Arn bucket) ''/*'']\<rparr>]\<rparr>
     in
     or_return (NewBucketPolicy w ctx (Domain.name domain @ ''BucketPolicy'')
        \<lparr>BucketPolicyArgs.Bucket = ID bucket,
         Policy = Json bucketPolicy\<rparr>) (\<lambda>_ ctx.
     let ctx = Export ctx ''bucketName'' (ID bucket);
         ctx = Export ctx ''cloudFrontDist'' (ID cloudFrontDist)
     in (None, ctx))))))))))))"

text \<open>main.go's constants, and the fresh context \<open>pulumi.Run\<close> starts from.\<close>

definition main :: "World \<Rightarrow> error option \<times> Context" where
  "main w =
     stack \<lparr>Project.name = ''stratusLabs''\<rparr> \<lparr>Environment.name = ''dev''\<rparr>
       \<lparr>dir = ''./www/_site''\<rparr> \<lparr>Domain.name = ''stratuslabs.net''\<rparr> w NewContext"

subsection \<open>What the engine resolves the inputs to\<close>

text \<open>
  main.go hands outputs on without looking into them; the engine resolves them once the
  resources exist. \<open>Deployed\<close> is what is known then: the output properties of each
  resource and the validation options the certificate exposes. Resolving
  \<open>xs.Index(i)\<close> is Go's \<open>xs[i]\<close>, which has a value only for \<open>0 \<le> i < len(xs)\<close>:
  \<open>None\<close> stands for the access out of range. \<open>.Elem()\<close> reads a string pointer,
  nil as the empty string.
\<close>

record CertificateDomainValidationOption =
  resourceRecordName :: "string option"
  resourceRecordValue :: "string option"

record Deployed =
  outputs :: "Handle \<Rightarrow> string \<Rightarrow> string"
  domainValidationOptions :: "Handle \<Rightarrow> CertificateDomainValidationOption list"

fun resolve_option ::
    "Deployed \<Rightarrow> ValidationOptionOutput \<Rightarrow> CertificateDomainValidationOption option" where
  "resolve_option d (Index (DomainValidationOptions certificate) i) =
     (let opts = domainValidationOptions d certificate
      in if 0 \<le> i \<and> i < int (length opts) then Some (opts ! nat i) else None)"

fun resolve_ptr :: "Deployed \<Rightarrow> StringPtrOutput \<Rightarrow> string option option" where
  "resolve_ptr d (ResourceRecordName x) = map_option resourceRecordName (resolve_option d x)"
| "resolve_ptr d (ResourceRecordValue x) = map_option resourceRecordValue (resolve_option d x)"

fun deref :: "string option \<Rightarrow> string" where
  "deref None = []"
| "deref (Some s) = s"

fun resolve :: "Deployed \<Rightarrow> StringInput \<Rightarrow> string option" where
  "resolve d (String s) = Some s"
| "resolve d (Output r property) = Some (outputs d r property)"
| "resolve d (Elem p) = map_option deref (resolve_ptr d p)"
| "resolve d (Sprintf_suffix x suffix) = map_option (\<lambda>v. v @ suffix) (resolve d x)"

subsection \<open>Reading a context\<close>

text \<open>The resources registered without error, in the order of their registration.\<close>

definition registered :: "Context \<Rightarrow> Resource list" where
  "registered ctx = concat (map (\<lambda>(r, err). if err = None then [r] else []) (calls ctx))"

fun as_Bucket :: "Resource \<Rightarrow> (string \<times> BucketArgs) list" where
  "as_Bucket (s3_Bucket n a) = [(n, a)]"
| "as_Bucket _ = []"

fun as_BucketPublicAccessBlock :: "Resource \<Rightarrow> (string \<times> BucketPublicAccessBlockArgs) list" where
  "as_BucketPublicAccessBlock (s3_BucketPublicAccessBlock n a) = [(n, a)]"
| "as_BucketPublicAccessBlock _ = []"

fun as_BucketObject :: "Resource \<Rightarrow> (string \<times> BucketObjectArgs) list" where
  "as_BucketObject (s3_BucketObject n a) = [(n, a)]"
| "as_BucketObject _ = []"

fun as_Certificate :: "Resource \<Rightarrow> (string \<times> CertificateArgs) list" where
  "as_Certificate (acm_Certificate n a) = [(n, a)]"
| "as_Certificate _ = []"

fun as_Record :: "Resource \<Rightarrow> (string \<times> RecordArgs) list" where
  "as_Record (route53_Record n a) = [(n, a)]"
| "as_Record _ = []"

fun as_OriginAccessIdentity :: "Resource \<Rightarrow> (string \<times> OriginAccessIdentityArgs) list" where
  "as_OriginAccessIdentity (cloudfront_OriginAccessIdentity n a) = [(n, a)]"
| "as_OriginAccessIdentity _ = []"

fun as_Distribution :: "Resource \<Rightarrow> (string \<times> DistributionArgs) list" where
  "as_Distribution (cloudfront_Distribution n a) = [(n, a)]"
| "as_Distribution _ = []"

fun as_BucketPolicy :: "Resource \<Rightarrow> (string \<times> BucketPolicyArgs) list" where
  "as_BucketPolicy (s3_BucketPolicy n a) = [(n, a)]"
| "as_BucketPolicy _ = []"

definition buckets :: "Context \<Rightarrow> (string \<times> BucketArgs) list" where
  "buckets ctx = concat (map as_Bucket (registered ctx))"

definition public_access_blocks :: "Context \<Rightarrow> (string \<times> BucketPublicAccessBlockArgs) list" where
  "public_access_blocks ctx = concat (map as_BucketPublicAccessBlock (registered ctx))"

definition bucket_objects :: "Context \<Rightarrow> (string \<times> BucketObjectArgs) list" where
  "bucket_objects ctx = concat (map as_BucketObject (registered ctx))"

definition certificates :: "Context \<Rightarrow> (string \<times> CertificateArgs) list" where
  "certificates ctx = concat (map as_Certificate (registered ctx))"

definition records :: "Context \<Rightarrow> (string \<times> RecordArgs) list" where
  "records ctx = concat (map as_Record (registered ctx))"

definition origin_access_identities :: "Context \<Rightarrow> (string \<times> OriginAccessIdentityArgs) list" where
  "origin_access_identities ctx = concat (map as_OriginAccessIdentity (registered ctx))"

definition distributions :: "Context \<Rightarrow> (string \<times> DistributionArgs) list" where
  "distributions ctx = concat (map as_Distribution (registered ctx))"

definition bucket_policies :: "Context \<Rightarrow> (string \<times> BucketPolicyArgs) list" where
  "bucket_policies ctx = concat (map as_BucketPolicy (registered ctx))"

text \<open>The validation records are those of type CNAME, the alias records those with an alias.\<close>

definition cname_records :: "Context \<Rightarrow> (string \<times> RecordArgs) list" where
  "cname_records ctx = filter (\<lambda>(n, a). RecordArgs.Type a = String ''CNAME'') (records ctx)"

definition alias_dns_records :: "Context \<Rightarrow> (string \<times> RecordArgs) list" where
  "alias_dns_records ctx = filter (\<lambda>(n, a). RecordArgs.Aliases a \<noteq> []) (records ctx)"

subsection \<open>The registrations of a run in which nothing fails\<close>

text \<open>
  Used to state the lemmas below: the handles main.go holds, the three kinds of resource
  registered in a loop, and the whole sequence of resources a run registers when every
  call succeeds, for a given directory listing and zone.
\<close>

definition bucket_of :: "Project \<Rightarrow> Handle" where
  "bucket_of project = Handle KBucket (Project.name project @ ''Bucket'')"

definition certificate_of :: "Project \<Rightarrow> Handle" where
  "certificate_of project = Handle KCertificate (Project.name project @ ''Cert'')"

definition originAccessId_of :: "Project \<Rightarrow> Handle" where
  "originAccessId_of project = Handle KOriginAccessIdentity (Project.name project @ ''OriginAccessId'')"

definition cloudFrontDist_of :: "Project \<Rightarrow> Handle" where
  "cloudFrontDist_of project = Handle KDistribution (Project.name project @ ''Distribution'')"

definition tags_of :: "Project \<Rightarrow> Environment \<Rightarrow> Tags" where
  "tags_of project environment =
     \<lparr>tags = [''project'' \<mapsto> Project.name project,
              ''environment'' \<mapsto> Environment.name environment]\<rparr>"

definition object_of :: "Site \<Rightarrow> Tags \<Rightarrow> Handle \<Rightarrow> DirEntry \<Rightarrow> Resource" where
  "object_of site tgs bucket file =
     s3_BucketObject (DirEntry.Name file)
        \<lparr>Key = String (DirEntry.Name file),
         BucketObjectArgs.Bucket = ID bucket,
         Source = NewFileAsset (dir site @ ''/'' @ DirEntry.Name file),
         ContentType = String ''text/html'',
         BucketObjectArgs.Tags = tags tgs\<rparr>"

definition cname_of :: "Project \<Rightarrow> LookupZoneResult \<Rightarrow> Handle \<Rightarrow> int \<Rightarrow> Resource" where
  "cname_of project domainZone certificate i =
     route53_Record (Project.name project @ ''Cname'' @ Itoa i)
           \<lparr>RecordArgs.ZoneId = String (Id domainZone),
            RecordArgs.Name = Elem (ResourceRecordName (Index (DomainValidationOptions certificate) i)),
            RecordArgs.Type = String ''CNAME'',
            Ttl = Some 60,
            Records = [Elem (ResourceRecordValue (Index (DomainValidationOptions certificate) i))],
            RecordArgs.Aliases = []\<rparr>"

definition alias_of ::
    "string \<Rightarrow> string \<Rightarrow> LookupZoneResult \<Rightarrow> Handle \<Rightarrow> string \<Rightarrow> Resource" where
  "alias_of n host domainZone cloudFrontDist record =
     route53_Record n
        \<lparr>RecordArgs.ZoneId = String (Id domainZone),
         RecordArgs.Name = String host,
         RecordArgs.Type = String record,
         Ttl = None,
         Records = [],
         RecordArgs.Aliases =
           [\<lparr>RecordAliasArgs.Name = DistributionDomainName cloudFrontDist,
             RecordAliasArgs.ZoneId = HostedZoneId cloudFrontDist,
             EvaluateTargetHealth = True\<rparr>]\<rparr>"

definition complete_run ::
    "Project \<Rightarrow> Environment \<Rightarrow> Site \<Rightarrow> Domain \<Rightarrow> DirEntry list \<Rightarrow> LookupZoneResult
      \<Rightarrow> Resource list" where
  "complete_run project environment site domain files domainZone =
     [s3_Bucket (Project.name project @ ''Bucket'')
        \<lparr>BucketArgs.Bucket = String (''www.'' @ Domain.name domain),
         Website = \<lparr>IndexDocument = String ''index.html'',
                    ErrorDocument = String ''error.html''\<rparr>,
         BucketArgs.Tags = tags (tags_of project environment)\<rparr>,
      s3_BucketPublicAccessBlock (Project.name project @ ''BucketNoPublic'')
        \<lparr>BucketPublicAccessBlockArgs.Bucket = ID (bucket_of project),
         BlockPublicAcls = True,
         BlockPublicPolicy = True,
         IgnorePublicAcls = True,
         RestrictPublicBuckets = True\<rparr>]
     @ map (object_of site (tags_of project environment) (bucket_of project)) files
     @ [acm_Certificate (Project.name project @ ''Cert'')
        \<lparr>CertificateArgs.DomainName = String (Domain.name domain),
         ValidationMethod = String ''DNS'',
         SubjectAlternativeNames = [String (''www.'' @ Domain.name domain)],
         CertificateArgs.Tags = tags (tags_of project environment)\<rparr>,
      cname_of project domainZone (certificate_of project) 0,
      cname_of project domainZone (certificate_of project) 1,
      cloudfront_OriginAccessIdentity (Project.name project @ ''OriginAccessId'')
        \<lparr>Comment = String (Project.name project)\<rparr>,
      cloudfront_Distribution (Project.name project @ ''Distribution'')
        \<lparr>Origins =
           [\<lparr>DistributionOriginArgs.DomainName = BucketRegionalDomainName (bucket_of project),
             OriginId = ID (bucket_of project),
             S3OriginConfig =
               \<lparr>OriginAccessIdentity = CloudfrontAccessIdentityPath (originAccessId_of project)\<rparr>\<rparr>],
         Enabled = True,
         HttpVersion = String ''http2and3'',
         IsIpv6Enabled = True,
         DefaultRootObject = String ''index.html'',
         DistributionArgs.Aliases =
           [String (Domain.name domain), String (''www.'' @ Domain.name domain)],
         DefaultCacheBehavior =
           \<lparr>AllowedMethods = [String ''GET'', String ''HEAD''],
            CachedMethods = [String ''GET'', String ''HEAD''],
            TargetOriginId = ID (bucket_of project),
            ForwardedValues =
              \<lparr>QueryString = False,
               Cookies = \<lparr>Forward = String ''none''\<rparr>\<rparr>,
            ViewerProtocolPolicy = String ''redirect-to-https'',
            MinTtl = 0,
            DefaultTtl = 3600,
            MaxTtl = 86400\<rparr>,
         PriceClass = String (priceClass (Environment.name environment)),
         Restrictions =
           \<lparr>GeoRestriction = \<lparr>RestrictionType = String ''none''\<rparr>\<rparr>,
         ViewerCertificate =
           \<lparr>CloudfrontDefaultCertificate = False,
            AcmCertificateArn = Arn (certificate_of project),
            SslSupportMethod = String ''sni-only'',
            MinimumProtocolVersion = String ''TLSv1.2_2021''\<rparr>,
         DistributionArgs.Tags = tags (tags_of project environment)\<rparr>,
      alias_of (Project.name project @ ''A'') (Domain.name domain)
        domainZone (cloudFrontDist_of project) ''A'',
      alias_of (''www'' @ Project.name project @ ''A'') (''www.'' @ Domain.name domain)
        domainZone (cloudFrontDist_of project) ''A'',
      alias_of (Project.name project @ ''AAAA'') (Domain.name domain)
        domainZone (cloudFrontDist_of project) ''AAAA'',
      alias_of (''www'' @ Project.name project @ ''AAAA'') (''www.'' @ Domain.name domain)
        domainZone (cloudFrontDist_of project) ''AAAA'',
      s3_BucketPolicy (Domain.name domain @ ''BucketPolicy'')
        \<lparr>BucketPolicyArgs.Bucket = ID (bucket_of project),
         Policy = Json (GetPolicyDocumentOutput
           \<lparr>PolicyId = String ''PolicyForCloudFrontPrivateContent'',
            Version = String ''2008-10-17'',
            Statements =
              [\<lparr>Sid = String ''1'',
                Principals =
                  [\<lparr>GetPolicyDocumentStatementPrincipalArgs.Type = String ''AWS'',
                    Identifiers = [IamArn (originAccessId_of project)]\<rparr>],
                Actions = [String ''s3:GetObject''],
                Resources = [Sprintf_suffix (Arn (bucket_of project)) ''/*'']\<rparr>]\<rparr>)\<rparr>]"

subsection \<open>Runs that stop at the first error\<close>

text \<open>
  \<open>answered w before cs\<close>: each call in \<open>cs\<close> carries the answer the engine of \<open>w\<close> gives
  it after the calls \<open>before\<close> and the earlier ones of \<open>cs\<close>. \<open>first_error w ctx0 (r, ctx)\<close>:
  from \<open>ctx0\<close> to \<open>ctx\<close> the calls added are accepted ones, followed by one refused call
  exactly when \<open>r\<close> is an error, which is then the error of that call.
\<close>

fun answered :: "World \<Rightarrow> (Resource \<times> error option) list \<Rightarrow> (Resource \<times> error option) list \<Rightarrow> bool" where
  "answered w before [] = True"
| "answered w before (c # cs) = (snd c = engine w before (fst c) \<and> answered w (before @ [c]) cs)"

definition failure :: "error option \<Rightarrow> Resource \<Rightarrow> (Resource \<times> error option) list" where
  "failure r x = (case r of None \<Rightarrow> [] | Some e \<Rightarrow> [(x, Some e)])"

definition first_error :: "World \<Rightarrow> Context \<Rightarrow> error option \<times> Context \<Rightarrow> bool" where
  "first_error w ctx0 rc =
     (\<exists>oks x. calls (snd rc) = calls ctx0 @ map (\<lambda>r. (r, None)) oks @ failure (fst rc) x \<and>
        answered w (calls ctx0) (map (\<lambda>r. (r, None)) oks @ failure (fst rc) x))"

subsection \<open>Example worlds\<close>

text \<open>
  A site directory with two files, one of them an image, a world in which every call succeeds, and three in
  which one step fails: the directory is missing, no zone matches, the engine refuses
  the certificate.
\<close>

definition site_files :: "DirEntry list" where
  "site_files = [\<lparr>DirEntry.Name = ''index.html'', IsDir = False\<rparr>,
                 \<lparr>DirEntry.Name = ''logo.png'', IsDir = False\<rparr>]"

definition accepting_world :: World where
  "accepting_world =
     \<lparr>os_ReadDir = (\<lambda>path. if path = ''./www/_site/'' then Inr site_files
                             else Inl (Error ''no such file or directory'')),
      route53_LookupZone = (\<lambda>args. if LookupZoneArgs.Name args = Some ''stratuslabs.net''
                             then Inr \<lparr>Id = ''Z0123456789''\<rparr>
                             else Inl (Error ''no matching Route53 zone found'')),
      engine = (\<lambda>before r. None)\<rparr>"

definition missing_directory_world :: World where
  "missing_directory_world =
     accepting_world\<lparr>os_ReadDir := (\<lambda>path. Inl (Error ''no such file or directory''))\<rparr>"

definition missing_zone_world :: World where
  "missing_zone_world =
     accepting_world\<lparr>route53_LookupZone := (\<lambda>args. Inl (Error ''no matching Route53 zone found''))\<rparr>"

definition rejecting_world :: World where
  "rejecting_world =
     accepting_world\<lparr>engine := (\<lambda>before r.
        case r of acm_Certificate n a \<Rightarrow> Some (Error ''certificate request denied'')
                | _ \<Rightarrow> None)\<rparr>"

text \<open>
  What the engine knows after a deployment in which the certificate exposes two
  validation options, and after one in which it exposes a single one.
\<close>

definition deployed_two :: Deployed where
  "deployed_two =
     \<lparr>outputs = (\<lambda>r property. ''arn:aws:s3:::www.stratuslabs.net''),
      domainValidationOptions = (\<lambda>r.
        [\<lparr>resourceRecordName = Some ''_a1.stratuslabs.net.'',
          resourceRecordValue = Some ''_b1.acm-validations.aws.''\<rparr>,
         \<lparr>resourceRecordName = Some ''_a2.www.stratuslabs.net.'',
          resourceRecordValue = Some ''_b2.acm-validations.aws.''\<rparr>])\<rparr>"

definition deployed_one :: Deployed where
  "deployed_one =
     deployed_two\<lparr>domainValidationOptions := (\<lambda>r.
        [\<lparr>resourceRecordName = Some ''_a1.stratuslabs.net.'',
          resourceRecordValue = Some ''_b1.acm-validations.aws.''\<rparr>])\<rparr>"

section \<open>Properties\<close>

subsection \<open>Single calls and each loop\<close>

declare validation_records.simps [simp del]

lemmas New_defs = NewBucket_def NewBucketPublicAccessBlock_def NewBucketObject_def
  NewCertificate_def NewRecord_def NewOriginAccessIdentity_def NewDistribution_def
  NewBucketPolicy_def

lemma RegisterResource_Inr:
  "RegisterResource w ctx k n r = (Inr h, ctx') \<longleftrightarrow>
     engine w (calls ctx) r = None \<and> h = Handle k n \<and> ctx' = ctx\<lparr>calls := calls ctx @ [(r, None)]\<rparr>"
  by (auto simp: RegisterResource_def Let_def split: option.splits)

lemma or_return_None:
  "or_return m rest = (None, c) \<longleftrightarrow> (\<exists>x ctx. m = (Inr x, ctx) \<and> rest x ctx = (None, c))"
  by (auto simp: or_return_def split: prod.splits sum.splits)

lemma and_then_None:
  "and_then m rest = (None, c) \<longleftrightarrow> (\<exists>ctx. m = (None, ctx) \<and> rest ctx = (None, c))"
  by (auto simp: and_then_def split: prod.splits option.splits)

lemma Itoa_0: "Itoa 0 = ''0''" by (simp add: Itoa_def digit_def)

lemma Itoa_1: "Itoa 1 = ''1''" by (simp add: Itoa_def digit_def)

lemma upload_files_None:
  "upload_files w ctx site tgs bucket files = (None, ctx') \<Longrightarrow>
     ctx' = ctx\<lparr>calls := calls ctx @ map (\<lambda>f. (object_of site tgs bucket f, None)) files\<rparr>"
proof (induction files arbitrary: ctx)
  case Nil
  then show ?case by simp
next
  case (Cons f fs)
  from Cons.prems obtain c where
    c: "c = ctx\<lparr>calls := calls ctx @ [(object_of site tgs bucket f, None)]\<rparr>"
    and rest: "upload_files w c site tgs bucket fs = (None, ctx')"
    by (auto simp: or_return_None New_defs RegisterResource_Inr object_of_def)
  from Cons.IH [OF rest] show ?case by (simp add: c)
qed

lemma validation_records_None:
  "validation_records w ctx project domainZone certificate 0 = (None, ctx') \<Longrightarrow>
     ctx' = ctx\<lparr>calls := calls ctx @
       [(cname_of project domainZone certificate 0, None),
        (cname_of project domainZone certificate 1, None)]\<rparr>"
  by (auto simp: validation_records.simps [of _ _ _ _ _ 0] validation_records.simps [of _ _ _ _ _ 1]
      validation_records.simps [of _ _ _ _ _ 2]
      or_return_None New_defs RegisterResource_Inr cname_of_def)

lemma alias_records_None:
  "alias_records w ctx project domain domainZone cloudFrontDist rs = (None, ctx') \<Longrightarrow>
     ctx' = ctx\<lparr>calls := calls ctx @ concat (map (\<lambda>record.
       [(alias_of (Project.name project @ record) (Domain.name domain)
           domainZone cloudFrontDist record, None),
        (alias_of (''www'' @ Project.name project @ record) (''www.'' @ Domain.name domain)
           domainZone cloudFrontDist record, None)]) rs)\<rparr>"
proof (induction rs arbitrary: ctx)
  case Nil
  then show ?case by simp
next
  case (Cons r rs)
  from Cons.prems obtain c where
    c: "c = ctx\<lparr>calls := calls ctx @
       [(alias_of (Project.name project @ r) (Domain.name domain)
           domainZone cloudFrontDist r, None),
        (alias_of (''www'' @ Project.name project @ r) (''www.'' @ Domain.name domain)
           domainZone cloudFrontDist r, None)]\<rparr>"
    and rest: "alias_records w c project domain domainZone cloudFrontDist rs = (None, ctx')"
    by (auto simp: or_return_None New_defs RegisterResource_Inr alias_of_def)
  from Cons.IH [OF rest] show ?case by (simp add: c)
qed

subsection \<open>A run without error registers the complete sequence\<close>

lemma stack_None:
  assumes "stack project environment site domain w ctx0 = (None, ctx)"
  shows "\<exists>files domainZone.
     os_ReadDir w (dir site @ ''/'') = Inr files \<and>
     route53_LookupZone w \<lparr>LookupZoneArgs.Name = Some (Domain.name domain)\<rparr> = Inr domainZone \<and>
     calls ctx = calls ctx0 @
       map (\<lambda>r. (r, None)) (complete_run project environment site domain files domainZone) \<and>
     exports ctx = exports ctx0 @
       [(''bucketName'', ID (bucket_of project)),
        (''cloudFrontDist'', ID (cloudFrontDist_of project))]"
proof -
  from assms obtain files domainZone where
    files: "os_ReadDir w (dir site @ ''/'') = Inr files" and
    zone: "route53_LookupZone w \<lparr>LookupZoneArgs.Name = Some (Domain.name domain)\<rparr> = Inr domainZone"
    by (auto simp: stack_def Let_def split: sum.splits)
  from assms show ?thesis
    unfolding stack_def Let_def files zone
    by (auto simp: or_return_None and_then_None New_defs RegisterResource_Inr
        complete_run_def Export_def bucket_of_def certificate_of_def
        originAccessId_of_def cloudFrontDist_of_def tags_of_def comp_def alias_of_def
        dest!: upload_files_None validation_records_None alias_records_None)
qed

lemma registered_all:
  "calls ctx = map (\<lambda>r. (r, None)) rs \<Longrightarrow> registered ctx = rs"
  by (simp add: registered_def comp_def concat_map_singleton)

lemma no_objects_elsewhere:
  "as_Bucket (object_of site tgs bucket f) = []"
  "as_BucketPublicAccessBlock (object_of site tgs bucket f) = []"
  "as_Certificate (object_of site tgs bucket f) = []"
  "as_Record (object_of site tgs bucket f) = []"
  "as_OriginAccessIdentity (object_of site tgs bucket f) = []"
  "as_Distribution (object_of site tgs bucket f) = []"
  "as_BucketPolicy (object_of site tgs bucket f) = []"
  by (simp_all add: object_of_def)

lemma objects_of_files:
  "concat (map (as_BucketObject \<circ> object_of site tgs bucket) files) =
     map (\<lambda>f. (DirEntry.Name f,
        \<lparr>Key = String (DirEntry.Name f),
         BucketObjectArgs.Bucket = ID bucket,
         Source = NewFileAsset (dir site @ ''/'' @ DirEntry.Name f),
         ContentType = String ''text/html'',
         BucketObjectArgs.Tags = tags tgs\<rparr>)) files"
  by (induction files) (simp_all add: object_of_def)

lemma complete_run_registered:
  assumes "stack project environment site domain w NewContext = (None, ctx)"
    and "os_ReadDir w (dir site @ ''/'') = Inr files"
    and "route53_LookupZone w \<lparr>LookupZoneArgs.Name = Some (Domain.name domain)\<rparr> = Inr domainZone"
  shows "registered ctx = complete_run project environment site domain files domainZone"
proof -
  from stack_None [OF assms(1)] assms(2,3)
  have "calls ctx = map (\<lambda>r. (r, None)) (complete_run project environment site domain files domainZone)"
    by (auto simp: NewContext_def)
  then show ?thesis by (rule registered_all)
qed

lemma complete_run_exists:
  assumes "stack project environment site domain w NewContext = (None, ctx)"
  shows "\<exists>files domainZone.
     registered ctx = complete_run project environment site domain files domainZone"
  using stack_None [OF assms] registered_all [of ctx] by (auto simp: NewContext_def)

subsection \<open>Every run stops at its first error\<close>

lemma answered_append:
  "answered w before (xs @ ys) \<longleftrightarrow> answered w before xs \<and> answered w (before @ xs) ys"
  by (induction xs arbitrary: before) auto

lemma answered_nth:
  "answered w before cs \<Longrightarrow> i < length cs \<Longrightarrow>
     snd (cs ! i) = engine w (before @ take i cs) (fst (cs ! i))"
proof (induction cs arbitrary: before i)
  case Nil
  then show ?case by simp
next
  case (Cons c cs)
  show ?case
  proof (cases i)
    case 0
    with Cons.prems show ?thesis by simp
  next
    case (Suc j)
    with Cons.prems have "answered w (before @ [c]) cs" and "j < length cs" by auto
    from Cons.IH [OF this] show ?thesis by (simp add: Suc)
  qed
qed

lemma first_error_done: "first_error w ctx (None, ctx)"
  unfolding first_error_def failure_def
  by (rule exI [of _ "[]"]) simp

lemma first_error_exports:
  "first_error w ctx0 (None, ctx) \<Longrightarrow> first_error w ctx0 (None, Export ctx k v)"
  by (simp add: first_error_def Export_def)

lemma first_error_Register:
  assumes "\<And>h ctx1. first_error w ctx1 (rest h ctx1)"
  shows "first_error w ctx0 (or_return (RegisterResource w ctx0 k n res) rest)"
proof (cases "engine w (calls ctx0) res")
  case (Some e)
  then have "or_return (RegisterResource w ctx0 k n res) rest =
      (Some e, ctx0\<lparr>calls := calls ctx0 @ [(res, Some e)]\<rparr>)"
    by (simp add: or_return_def RegisterResource_def)
  moreover have "first_error w ctx0 (Some e, ctx0\<lparr>calls := calls ctx0 @ [(res, Some e)]\<rparr>)"
    unfolding first_error_def failure_def
    by (rule exI [of _ "[]"], rule exI [of _ res]) (simp add: Some)
  ultimately show ?thesis by simp
next
  case None
  let ?c1 = "ctx0\<lparr>calls := calls ctx0 @ [(res, None)]\<rparr>"
  have eq: "or_return (RegisterResource w ctx0 k n res) rest = rest (Handle k n) ?c1"
    by (simp add: or_return_def RegisterResource_def None)
  from assms [of ?c1 "Handle k n"] obtain oks x where
    c: "calls (snd (rest (Handle k n) ?c1)) =
          calls ?c1 @ map (\<lambda>r. (r, None)) oks @ failure (fst (rest (Handle k n) ?c1)) x"
    and a: "answered w (calls ?c1) (map (\<lambda>r. (r, None)) oks @ failure (fst (rest (Handle k n) ?c1)) x)"
    unfolding first_error_def by blast
  show ?thesis
    unfolding first_error_def eq
    by (rule exI [of _ "res # oks"], rule exI [of _ x]) (use c a None in simp)
qed

lemma first_error_and_then:
  assumes m: "first_error w ctx0 m" and rest: "\<And>ctx1. first_error w ctx1 (rest ctx1)"
  shows "first_error w ctx0 (and_then m rest)"
proof (cases m)
  case (Pair r ctx1)
  show ?thesis
  proof (cases r)
    case (Some e)
    with Pair m show ?thesis by (simp add: and_then_def)
  next
    case None
    from m obtain oks where
      c1: "calls ctx1 = calls ctx0 @ map (\<lambda>r. (r, None)) oks" and
      a1: "answered w (calls ctx0) (map (\<lambda>r. (r, None)) oks)"
      unfolding first_error_def Pair None failure_def by auto
    from rest [of ctx1] obtain oks' x where
      c2: "calls (snd (rest ctx1)) =
            calls ctx1 @ map (\<lambda>r. (r, None)) oks' @ failure (fst (rest ctx1)) x" and
      a2: "answered w (calls ctx1) (map (\<lambda>r. (r, None)) oks' @ failure (fst (rest ctx1)) x)"
      unfolding first_error_def by blast
    have eq: "and_then m rest = rest ctx1"
      by (simp add: and_then_def Pair None)
    show ?thesis
      unfolding first_error_def eq
      by (rule exI [of _ "oks @ oks'"], rule exI [of _ x])
         (use c1 a1 c2 a2 in \<open>simp add: answered_append\<close>)
  qed
qed

lemma first_error_upload_files: "first_error w ctx (upload_files w ctx site tgs bucket files)"
proof (induction files arbitrary: ctx)
  case Nil
  show ?case by (simp add: first_error_done)
next
  case (Cons f fs)
  show ?case
    unfolding upload_files.simps NewBucketObject_def
    by (rule first_error_Register) (rule Cons.IH)
qed

lemma first_error_validation_records:
  "first_error w ctx (validation_records w ctx project domainZone certificate i)"
proof (induction w ctx project domainZone certificate i rule: validation_records.induct)
  case (1 w ctx project domainZone certificate i)
  show ?case
  proof (cases "i \<le> 1")
    case True
    show ?thesis
      unfolding validation_records.simps [of w ctx project domainZone certificate i] NewRecord_def
      using True by (simp only: if_True) (rule first_error_Register, rule "1.IH" [OF True])
  next
    case False
    then show ?thesis
      by (simp add: validation_records.simps [of w ctx project domainZone certificate i]
          first_error_done)
  qed
qed

lemma first_error_alias_records:
  "first_error w ctx (alias_records w ctx project domain domainZone cloudFrontDist rs)"
proof (induction rs arbitrary: ctx)
  case Nil
  show ?case by (simp add: first_error_done)
next
  case (Cons r rs)
  show ?case
    unfolding alias_records.simps NewRecord_def
    by (rule first_error_Register, rule first_error_Register) (rule Cons.IH)
qed

lemma first_error_stack:
  assumes "os_ReadDir w (dir site @ ''/'') = Inr files"
    and "route53_LookupZone w \<lparr>LookupZoneArgs.Name = Some (Domain.name domain)\<rparr> = Inr domainZone"
  shows "first_error w ctx (stack project environment site domain w ctx)"
  unfolding stack_def Let_def assms sum.case New_defs
  by (intro first_error_Register first_error_and_then first_error_upload_files
      first_error_validation_records first_error_alias_records first_error_exports
      first_error_done)

lemma failure_nth:
  assumes "cs = map (\<lambda>r. (r, None)) oks @ failure r x" and "i < length cs"
    and "snd (cs ! i) = Some e"
  shows "r = Some e \<and> Suc i = length cs"
  using assms by (auto simp: failure_def nth_append split: option.splits if_splits)

lemma failure_last:
  assumes "cs = map (\<lambda>r. (r, None)) oks @ failure (Some e) x"
  shows "cs \<noteq> [] \<and> snd (last cs) = Some e"
  using assms by (simp add: failure_def)

subsection \<open>The example worlds, evaluated\<close>

lemma accepting_run:
  "fst (stack \<lparr>Project.name = ''stratusLabs''\<rparr> environment \<lparr>dir = ''./www/_site''\<rparr>
       \<lparr>Domain.name = ''stratuslabs.net''\<rparr> accepting_world NewContext) = None"
  by (simp add: stack_def Let_def accepting_world_def site_files_def or_return_def and_then_def
      New_defs RegisterResource_def validation_records.simps [of _ _ _ _ _ 0]
      validation_records.simps [of _ _ _ _ _ 1] validation_records.simps [of _ _ _ _ _ 2])

lemma accepting_main: "fst (main accepting_world) = None"
  unfolding main_def by (rule accepting_run)

lemma accepting_main_run:
  "stack \<lparr>Project.name = ''stratusLabs''\<rparr> \<lparr>Environment.name = ''dev''\<rparr>
       \<lparr>dir = ''./www/_site''\<rparr> \<lparr>Domain.name = ''stratuslabs.net''\<rparr> accepting_world NewContext
     = (None, snd (main accepting_world))"
  using accepting_main by (simp add: main_def prod_eq_iff)

lemma accepting_files:
  "os_ReadDir accepting_world (dir \<lparr>dir = ''./www/_site''\<rparr> @ ''/'') = Inr site_files"
  by (simp add: accepting_world_def)

lemma accepting_zone:
  "route53_LookupZone accepting_world
       \<lparr>LookupZoneArgs.Name = Some (Domain.name \<lparr>Domain.name = ''stratuslabs.net''\<rparr>)\<rparr> =
     Inr \<lparr>Id = ''Z0123456789''\<rparr>"
  by (simp add: accepting_world_def)

lemma missing_directory_run:
  "os_ReadDir missing_directory_world (dir \<lparr>dir = ''./www/_site''\<rparr> @ ''/'') =
     Inl (Error ''no such file or directory'')"
  by (simp add: missing_directory_world_def accepting_world_def)

lemma missing_zone_run:
  "os_ReadDir missing_zone_world (dir \<lparr>dir = ''./www/_site''\<rparr> @ ''/'') = Inr site_files \<and>
   route53_LookupZone missing_zone_world
       \<lparr>LookupZoneArgs.Name = Some (Domain.name \<lparr>Domain.name = ''stratuslabs.net''\<rparr>)\<rparr> =
     Inl (Error ''no matching Route53 zone found'')"
  by (simp add: missing_zone_world_def accepting_world_def)

lemma rejecting_run:
  "map snd (calls (snd (main rejecting_world))) =
     [None, None, None, None, Some (Error ''certificate request denied'')]"
  by (simp add: main_def stack_def Let_def rejecting_world_def accepting_world_def site_files_def
      or_return_def and_then_def New_defs RegisterResource_def NewContext_def)

section \<open>The claims\<close>

text \<open>
  C1. A run without error registers one bucket policy. Its document has a single
  statement, whose only action is \<open>s3:GetObject\<close>, whose only principal has as its only
  identifier the IAM ARN of the origin access identity the run registered, and whose only
  resource is the ARN of the bucket the run registered followed by \<open>/*\<close> (which is
  what that input resolves to). The policy is attached to the id of that bucket.
\<close>

theorem C1_bucket_policy:
  assumes "stack project environment site domain w NewContext = (None, ctx)"
  shows "map fst (buckets ctx) = [Project.name project @ ''Bucket''] \<and>
    map fst (origin_access_identities ctx) = [Project.name project @ ''OriginAccessId''] \<and>
    bucket_policies ctx =
      [(Domain.name domain @ ''BucketPolicy'',
        \<lparr>BucketPolicyArgs.Bucket = ID (Handle KBucket (Project.name project @ ''Bucket'')),
         Policy = Json (GetPolicyDocumentOutput
           \<lparr>PolicyId = String ''PolicyForCloudFrontPrivateContent'',
            Version = String ''2008-10-17'',
            Statements =
              [\<lparr>Sid = String ''1'',
                Principals =
                  [\<lparr>GetPolicyDocumentStatementPrincipalArgs.Type = String ''AWS'',
                    Identifiers = [IamArn
                      (Handle KOriginAccessIdentity (Project.name project @ ''OriginAccessId''))]\<rparr>],
                Actions = [String ''s3:GetObject''],
                Resources = [Sprintf_suffix
                  (Arn (Handle KBucket (Project.name project @ ''Bucket''))) ''/*'']\<rparr>]\<rparr>)\<rparr>)] \<and>
    resolve d (Sprintf_suffix (Arn (Handle KBucket (Project.name project @ ''Bucket''))) ''/*'') =
      Some (outputs d (Handle KBucket (Project.name project @ ''Bucket'')) ''arn'' @ ''/*'')"
proof -
  from complete_run_exists [OF assms] obtain files domainZone where
    r: "registered ctx = complete_run project environment site domain files domainZone" by blast
  show ?thesis
    unfolding buckets_def origin_access_identities_def bucket_policies_def r
    by (simp add: complete_run_def no_objects_elsewhere cname_of_def alias_of_def
        bucket_of_def originAccessId_of_def Arn_def)
qed

theorem C1_bucket_policy_witness:
  "fst (main accepting_world) = None \<and>
   map (\<lambda>(n, a). BucketPolicyArgs.Bucket a) (bucket_policies (snd (main accepting_world))) =
     [ID (Handle KBucket ''stratusLabsBucket'')] \<and>
   resolve deployed_two (Sprintf_suffix (Arn (Handle KBucket ''stratusLabsBucket'')) ''/*'') =
     Some ''arn:aws:s3:::www.stratuslabs.net/*''"
  using C1_bucket_policy [OF accepting_main_run, of deployed_two] accepting_main
  by (simp add: deployed_two_def)

text \<open>
  C2. A run without error registers one distribution. It has one origin: its domain name
  is the regional domain name of the registered bucket and its S3 origin config holds the
  access identity path of the registered origin access identity. The default cache
  behaviour allows and caches GET and HEAD only, forwards no query string and no
  cookies (\<open>none\<close>), redirects viewers to https, and has the TTLs 0, 3600 and 86400.
  The aliases are the domain and \<open>www.\<close> followed by the domain, the geo restriction is
  \<open>none\<close>, and the viewer certificate is the ARN of the registered certificate, with
  \<open>sni-only\<close> and the minimum protocol version \<open>TLSv1.2_2021\<close>.
\<close>

theorem C2_distribution:
  assumes "stack project environment site domain w NewContext = (None, ctx)"
  shows "map fst (buckets ctx) = [Project.name project @ ''Bucket''] \<and>
    map fst (certificates ctx) = [Project.name project @ ''Cert''] \<and>
    map fst (origin_access_identities ctx) = [Project.name project @ ''OriginAccessId''] \<and>
    distributions ctx =
      [(Project.name project @ ''Distribution'',
        \<lparr>Origins =
           [\<lparr>DistributionOriginArgs.DomainName =
               BucketRegionalDomainName (Handle KBucket (Project.name project @ ''Bucket'')),
             OriginId = ID (Handle KBucket (Project.name project @ ''Bucket'')),
             S3OriginConfig =
               \<lparr>OriginAccessIdentity = CloudfrontAccessIdentityPath
                  (Handle KOriginAccessIdentity (Project.name project @ ''OriginAccessId''))\<rparr>\<rparr>],
         Enabled = True,
         HttpVersion = String ''http2and3'',
         IsIpv6Enabled = True,
         DefaultRootObject = String ''index.html'',
         DistributionArgs.Aliases =
           [String (Domain.name domain), String (''www.'' @ Domain.name domain)],
         DefaultCacheBehavior =
           \<lparr>AllowedMethods = [String ''GET'', String ''HEAD''],
            CachedMethods = [String ''GET'', String ''HEAD''],
            TargetOriginId = ID (Handle KBucket (Project.name project @ ''Bucket'')),
            ForwardedValues =
              \<lparr>QueryString = False,
               Cookies = \<lparr>Forward = String ''none''\<rparr>\<rparr>,
            ViewerProtocolPolicy = String ''redirect-to-https'',
            MinTtl = 0,
            DefaultTtl = 3600,
            MaxTtl = 86400\<rparr>,
         PriceClass = String (priceClass (Environment.name environment)),
         Restrictions =
           \<lparr>GeoRestriction = \<lparr>RestrictionType = String ''none''\<rparr>\<rparr>,
         ViewerCertificate =
           \<lparr>CloudfrontDefaultCertificate = False,
            AcmCertificateArn = Arn (Handle KCertificate (Project.name project @ ''Cert'')),
            SslSupportMethod = String ''sni-only'',
            MinimumProtocolVersion = String ''TLSv1.2_2021''\<rparr>,
         DistributionArgs.Tags = [''project'' \<mapsto> Project.name project,
                                  ''environment'' \<mapsto> Environment.name environment]\<rparr>)]"
proof -
  from complete_run_exists [OF assms] obtain files domainZone where
    r: "registered ctx = complete_run project environment site domain files domainZone" by blast
  show ?thesis
    unfolding buckets_def certificates_def origin_access_identities_def distributions_def r
    by (simp add: complete_run_def no_objects_elsewhere cname_of_def alias_of_def tags_of_def
        bucket_of_def certificate_of_def originAccessId_of_def)
qed

theorem C2_distribution_witness:
  "fst (main accepting_world) = None \<and>
   map (\<lambda>(n, a). (n, length (Origins a), DistributionArgs.Aliases a, PriceClass a))
     (distributions (snd (main accepting_world))) =
     [(''stratusLabsDistribution'', 1,
       [String ''stratuslabs.net'', String ''www.stratuslabs.net''], String ''PriceClass_100'')]"
  using C2_distribution [OF accepting_main_run] accepting_main
  by (simp add: priceClass_def)

text \<open>
  C3. A run without error registers exactly two CNAME records, numbered 0 and 1. Record
  \<open>i\<close> takes its name from the resource record name of the entry at index \<open>i\<close> of the
  registered certificate's domain validation options, and its only value from the
  resource record value of the same entry. Each of these inputs resolves to the field of
  that entry when the index is below the number of entries, and is out of range
  otherwise: one of the two accesses is out of range exactly when the certificate exposes
  fewer than two entries.
\<close>

theorem C3_validation_records:
  fixes d :: Deployed and project :: Project
  defines "opts \<equiv> domainValidationOptions d (Handle KCertificate (Project.name project @ ''Cert''))"
  assumes "stack project environment site domain w NewContext = (None, ctx)"
    and "route53_LookupZone w \<lparr>LookupZoneArgs.Name = Some (Domain.name domain)\<rparr> = Inr domainZone"
  shows "map fst (certificates ctx) = [Project.name project @ ''Cert''] \<and>
    cname_records ctx =
      [(Project.name project @ ''Cname0'',
        \<lparr>RecordArgs.ZoneId = String (Id domainZone),
         RecordArgs.Name = Elem (ResourceRecordName (Index (DomainValidationOptions
            (Handle KCertificate (Project.name project @ ''Cert''))) 0)),
         RecordArgs.Type = String ''CNAME'',
         Ttl = Some 60,
         Records = [Elem (ResourceRecordValue (Index (DomainValidationOptions
            (Handle KCertificate (Project.name project @ ''Cert''))) 0))],
         RecordArgs.Aliases = []\<rparr>),
       (Project.name project @ ''Cname1'',
        \<lparr>RecordArgs.ZoneId = String (Id domainZone),
         RecordArgs.Name = Elem (ResourceRecordName (Index (DomainValidationOptions
            (Handle KCertificate (Project.name project @ ''Cert''))) 1)),
         RecordArgs.Type = String ''CNAME'',
         Ttl = Some 60,
         Records = [Elem (ResourceRecordValue (Index (DomainValidationOptions
            (Handle KCertificate (Project.name project @ ''Cert''))) 1))],
         RecordArgs.Aliases = []\<rparr>)] \<and>
    map (\<lambda>(n, a). resolve d (RecordArgs.Name a)) (cname_records ctx) =
      [if 0 < length opts then Some (deref (resourceRecordName (opts ! 0))) else None,
       if 1 < length opts then Some (deref (resourceRecordName (opts ! 1))) else None] \<and>
    map (\<lambda>(n, a). map (resolve d) (Records a)) (cname_records ctx) =
      [[if 0 < length opts then Some (deref (resourceRecordValue (opts ! 0))) else None],
       [if 1 < length opts then Some (deref (resourceRecordValue (opts ! 1))) else None]] \<and>
    (None \<in> set (map (\<lambda>(n, a). resolve d (RecordArgs.Name a)) (cname_records ctx))) =
      (length opts < 2)"
proof -
  from complete_run_registered [OF assms(2) _ assms(3)] stack_None [OF assms(2)]
  obtain files where
    r: "registered ctx = complete_run project environment site domain files domainZone"
    by auto
  have certs: "map fst (certificates ctx) = [Project.name project @ ''Cert'']"
    unfolding certificates_def r
    by (simp add: complete_run_def no_objects_elsewhere cname_of_def alias_of_def)
  have cnames: "cname_records ctx =
      [(Project.name project @ ''Cname0'',
        \<lparr>RecordArgs.ZoneId = String (Id domainZone),
         RecordArgs.Name = Elem (ResourceRecordName (Index (DomainValidationOptions
            (Handle KCertificate (Project.name project @ ''Cert''))) 0)),
         RecordArgs.Type = String ''CNAME'',
         Ttl = Some 60,
         Records = [Elem (ResourceRecordValue (Index (DomainValidationOptions
            (Handle KCertificate (Project.name project @ ''Cert''))) 0))],
         RecordArgs.Aliases = []\<rparr>),
       (Project.name project @ ''Cname1'',
        \<lparr>RecordArgs.ZoneId = String (Id domainZone),
         RecordArgs.Name = Elem (ResourceRecordName (Index (DomainValidationOptions
            (Handle KCertificate (Project.name project @ ''Cert''))) 1)),
         RecordArgs.Type = String ''CNAME'',
         Ttl = Some 60,
         Records = [Elem (ResourceRecordValue (Index (DomainValidationOptions
            (Handle KCertificate (Project.name project @ ''Cert''))) 1))],
         RecordArgs.Aliases = []\<rparr>)]"
    unfolding cname_records_def records_def r
    by (simp add: complete_run_def no_objects_elsewhere cname_of_def alias_of_def
        certificate_of_def Itoa_0 Itoa_1)
  show ?thesis
    unfolding cnames certs
    by (auto simp: opts_def Let_def)
qed


theorem C3_validation_records_witness:
  "fst (main accepting_world) = None \<and>
   map (\<lambda>(n, a). (n, resolve deployed_two (RecordArgs.Name a)))
     (cname_records (snd (main accepting_world))) =
     [(''stratusLabsCname0'', Some ''_a1.stratuslabs.net.''),
      (''stratusLabsCname1'', Some ''_a2.www.stratuslabs.net.'')] \<and>
   map (\<lambda>(n, a). resolve deployed_one (RecordArgs.Name a))
     (cname_records (snd (main accepting_world))) =
     [Some ''_a1.stratuslabs.net.'', None]"
  using C3_validation_records [OF accepting_main_run accepting_zone, of deployed_two]
    C3_validation_records [OF accepting_main_run accepting_zone, of deployed_one]
    accepting_main
  by (simp add: deployed_two_def deployed_one_def)

text \<open>
  C4. Whatever the world answers, a run returns the first error a step returns and stops
  there. If reading the directory fails, or the zone lookup fails, the run returns that
  error and the context is still the fresh one. Every registration in the context carries
  the answer the engine gave it; a registration that was answered with an error is the
  last one made and its error is the one the run returns. An error the run returns is the
  error of the directory read, of the zone lookup, or of the last registration.
\<close>

theorem C4_first_error_returned:
  assumes run: "stack project environment site domain w NewContext = (r, ctx)"
  shows "(\<forall>e. os_ReadDir w (dir site @ ''/'') = Inl e \<longrightarrow> r = Some e \<and> ctx = NewContext) \<and>
    (\<forall>files e. os_ReadDir w (dir site @ ''/'') = Inr files \<and>
        route53_LookupZone w \<lparr>LookupZoneArgs.Name = Some (Domain.name domain)\<rparr> = Inl e
        \<longrightarrow> r = Some e \<and> ctx = NewContext) \<and>
    (\<forall>i<length (calls ctx).
        snd (calls ctx ! i) = engine w (take i (calls ctx)) (fst (calls ctx ! i))) \<and>
    (\<forall>i<length (calls ctx). \<forall>e. snd (calls ctx ! i) = Some e
        \<longrightarrow> r = Some e \<and> Suc i = length (calls ctx)) \<and>
    (\<forall>e. r = Some e \<longrightarrow>
        os_ReadDir w (dir site @ ''/'') = Inl e \<or>
        route53_LookupZone w \<lparr>LookupZoneArgs.Name = Some (Domain.name domain)\<rparr> = Inl e \<or>
        (calls ctx \<noteq> [] \<and> snd (last (calls ctx)) = Some e))"
proof (cases "os_ReadDir w (dir site @ ''/'')")
  case (Inl e)
  with run have "r = Some e" and "ctx = NewContext"
    by (simp_all add: stack_def Let_def)
  with Inl show ?thesis by (simp add: NewContext_def)
next
  case files: (Inr files)
  show ?thesis
  proof (cases "route53_LookupZone w \<lparr>LookupZoneArgs.Name = Some (Domain.name domain)\<rparr>")
    case (Inl e)
    with run files have "r = Some e" and "ctx = NewContext"
      by (simp_all add: stack_def Let_def)
    with Inl files show ?thesis by (simp add: NewContext_def)
  next
    case (Inr domainZone)
    from first_error_stack [OF files Inr, of NewContext project environment] run
    obtain oks x where
      c: "calls ctx = map (\<lambda>r. (r, None)) oks @ failure r x" and
      a: "answered w [] (calls ctx)"
      unfolding first_error_def by (auto simp: NewContext_def)
    have "\<forall>i<length (calls ctx).
        snd (calls ctx ! i) = engine w (take i (calls ctx)) (fst (calls ctx ! i))"
      using answered_nth [OF a] by simp
    moreover have "\<forall>i<length (calls ctx). \<forall>e. snd (calls ctx ! i) = Some e
        \<longrightarrow> r = Some e \<and> Suc i = length (calls ctx)"
      using failure_nth [OF c] by blast
    moreover have "\<forall>e. r = Some e \<longrightarrow> calls ctx \<noteq> [] \<and> snd (last (calls ctx)) = Some e"
      using failure_last c by blast
    ultimately show ?thesis using files Inr by simp
  qed
qed

theorem C4_first_error_returned_witness:
  "main missing_directory_world = (Some (Error ''no such file or directory''), NewContext) \<and>
   main missing_zone_world = (Some (Error ''no matching Route53 zone found''), NewContext) \<and>
   fst (main rejecting_world) = Some (Error ''certificate request denied'') \<and>
   length (calls (snd (main rejecting_world))) = 5"
proof -
  let ?p = "\<lparr>Project.name = ''stratusLabs''\<rparr>" and ?e = "\<lparr>Environment.name = ''dev''\<rparr>"
  let ?s = "\<lparr>dir = ''./www/_site''\<rparr>" and ?d = "\<lparr>Domain.name = ''stratuslabs.net''\<rparr>"
  have run: "stack ?p ?e ?s ?d w NewContext = (fst (main w), snd (main w))" for w
    by (simp add: main_def)
  have a: "main missing_directory_world = (Some (Error ''no such file or directory''), NewContext)"
    using C4_first_error_returned [OF run [of missing_directory_world]] missing_directory_run
    by (simp add: prod_eq_iff)
  have b: "main missing_zone_world = (Some (Error ''no matching Route53 zone found''), NewContext)"
    using C4_first_error_returned [OF run [of missing_zone_world]] missing_zone_run
    by (simp add: prod_eq_iff)
  have len: "length (calls (snd (main rejecting_world))) = 5"
    using arg_cong [OF rejecting_run, of length] by simp
  have nth: "snd (calls (snd (main rejecting_world)) ! 4) = Some (Error ''certificate request denied'')"
    using arg_cong [OF rejecting_run, of "\<lambda>xs. xs ! 4"] len by (simp add: nth_map)
  have "\<forall>i<length (calls (snd (main rejecting_world))).
      \<forall>e. snd (calls (snd (main rejecting_world)) ! i) = Some e
        \<longrightarrow> fst (main rejecting_world) = Some e \<and>
            Suc i = length (calls (snd (main rejecting_world)))"
    using C4_first_error_returned [OF run [of rejecting_world]] by blast
  from this [rule_format, of 4 "Error ''certificate request denied''"] len nth
  have c: "fst (main rejecting_world) = Some (Error ''certificate request denied'')"
    by simp
  from a b c len show ?thesis by simp
qed

text \<open>
  C5. A run without error registers one bucket object for each entry of the directory
  listing, in the order of the listing, and no other bucket object: its name and its key
  are the entry's name, its source is the file at the site directory, \<open>/\<close>, the entry's
  name, its content type is \<open>text/html\<close> whatever the name, and it goes into the
  registered bucket.
\<close>

theorem C5_bucket_objects:
  assumes "stack project environment site domain w NewContext = (None, ctx)"
    and "os_ReadDir w (dir site @ ''/'') = Inr files"
  shows "bucket_objects ctx =
      map (\<lambda>f. (DirEntry.Name f,
        \<lparr>Key = String (DirEntry.Name f),
         BucketObjectArgs.Bucket = ID (Handle KBucket (Project.name project @ ''Bucket'')),
         Source = NewFileAsset (dir site @ ''/'' @ DirEntry.Name f),
         ContentType = String ''text/html'',
         BucketObjectArgs.Tags = [''project'' \<mapsto> Project.name project,
                                  ''environment'' \<mapsto> Environment.name environment]\<rparr>)) files \<and>
    length (bucket_objects ctx) = length files \<and>
    map fst (buckets ctx) = [Project.name project @ ''Bucket'']"
proof -
  from stack_None [OF assms(1)] assms(2) obtain domainZone where
    "calls ctx = map (\<lambda>r. (r, None)) (complete_run project environment site domain files domainZone)"
    by (auto simp: NewContext_def)
  then have r: "registered ctx = complete_run project environment site domain files domainZone"
    by (rule registered_all)
  show ?thesis
    unfolding bucket_objects_def buckets_def r
    by (simp add: complete_run_def no_objects_elsewhere
        objects_of_files cname_of_def alias_of_def tags_of_def bucket_of_def)
qed


theorem C5_bucket_objects_witness:
  "fst (main accepting_world) = None \<and>
   map (\<lambda>(n, a). (n, Key a, Source a, ContentType a))
     (bucket_objects (snd (main accepting_world))) =
     [(''index.html'', String ''index.html'', NewFileAsset ''./www/_site/index.html'',
        String ''text/html''),
      (''logo.png'', String ''logo.png'', NewFileAsset ''./www/_site/logo.png'',
        String ''text/html'')]"
  using C5_bucket_objects [OF accepting_main_run accepting_files] accepting_main
  by (simp add: site_files_def)

text \<open>
  C6. A run without error registers exactly four alias records: type A for the domain,
  type A for \<open>www.\<close> followed by the domain, then type AAAA for each of the two. Each is
  in the zone the lookup returned and has one alias, to the domain name and the hosted
  zone id of the registered distribution, with target health evaluation on.
\<close>

theorem C6_alias_records:
  assumes "stack project environment site domain w NewContext = (None, ctx)"
    and "route53_LookupZone w \<lparr>LookupZoneArgs.Name = Some (Domain.name domain)\<rparr> = Inr domainZone"
  shows "map fst (distributions ctx) = [Project.name project @ ''Distribution''] \<and>
    length (alias_dns_records ctx) = 4 \<and>
    map (\<lambda>(n, a). (RecordArgs.Type a, RecordArgs.Name a)) (alias_dns_records ctx) =
      [(String ''A'', String (Domain.name domain)),
       (String ''A'', String (''www.'' @ Domain.name domain)),
       (String ''AAAA'', String (Domain.name domain)),
       (String ''AAAA'', String (''www.'' @ Domain.name domain))] \<and>
    map (\<lambda>(n, a). (RecordArgs.ZoneId a, RecordArgs.Aliases a)) (alias_dns_records ctx) =
      replicate 4
        (String (Id domainZone),
         [\<lparr>RecordAliasArgs.Name =
             DistributionDomainName (Handle KDistribution (Project.name project @ ''Distribution'')),
           RecordAliasArgs.ZoneId =
             HostedZoneId (Handle KDistribution (Project.name project @ ''Distribution'')),
           EvaluateTargetHealth = True\<rparr>]) \<and>
    map (\<lambda>(n, a). (n, Ttl a, Records a)) (alias_dns_records ctx) =
      [(Project.name project @ ''A'', None, []),
       (''www'' @ Project.name project @ ''A'', None, []),
       (Project.name project @ ''AAAA'', None, []),
       (''www'' @ Project.name project @ ''AAAA'', None, [])]"
proof -
  from complete_run_registered [OF assms(1) _ assms(2)] stack_None [OF assms(1)]
  obtain files where
    r: "registered ctx = complete_run project environment site domain files domainZone"
    by auto
  have dists: "map fst (distributions ctx) = [Project.name project @ ''Distribution'']"
    unfolding distributions_def r
    by (simp add: complete_run_def no_objects_elsewhere cname_of_def alias_of_def)
  have aliases: "alias_dns_records ctx =
      map (\<lambda>(n, host, record). (n,
        \<lparr>RecordArgs.ZoneId = String (Id domainZone),
         RecordArgs.Name = String host,
         RecordArgs.Type = String record,
         Ttl = None,
         Records = [],
         RecordArgs.Aliases =
           [\<lparr>RecordAliasArgs.Name =
               DistributionDomainName (Handle KDistribution (Project.name project @ ''Distribution'')),
             RecordAliasArgs.ZoneId =
               HostedZoneId (Handle KDistribution (Project.name project @ ''Distribution'')),
             EvaluateTargetHealth = True\<rparr>]\<rparr>))
       [(Project.name project @ ''A'', Domain.name domain, ''A''),
        (''www'' @ Project.name project @ ''A'', ''www.'' @ Domain.name domain, ''A''),
        (Project.name project @ ''AAAA'', Domain.name domain, ''AAAA''),
        (''www'' @ Project.name project @ ''AAAA'', ''www.'' @ Domain.name domain, ''AAAA'')]"
    unfolding alias_dns_records_def records_def r
    by (simp add: complete_run_def no_objects_elsewhere cname_of_def alias_of_def
        cloudFrontDist_of_def)
  show ?thesis
    unfolding aliases dists by (simp add: numeral_eq_Suc)
qed

theorem C6_alias_records_witness:
  "fst (main accepting_world) = None \<and>
   length (alias_dns_records (snd (main accepting_world))) = 4 \<and>
   map (\<lambda>(n, a). (RecordArgs.Type a, RecordArgs.Name a))
     (alias_dns_records (snd (main accepting_world))) =
     [(String ''A'', String ''stratuslabs.net''),
      (String ''A'', String ''www.stratuslabs.net''),
      (String ''AAAA'', String ''stratuslabs.net''),
      (String ''AAAA'', String ''www.stratuslabs.net'')] \<and>
   map (\<lambda>(n, a). (n, Ttl a, Records a)) (alias_dns_records (snd (main accepting_world))) =
     [(''stratusLabsA'', None, []),
      (''wwwstratusLabsA'', None, []),
      (''stratusLabsAAAA'', None, []),
      (''wwwstratusLabsAAAA'', None, [])] \<and>
   map (\<lambda>(n, a). RecordArgs.ZoneId a) (alias_dns_records (snd (main accepting_world))) =
     replicate 4 (String ''Z0123456789'')"
proof -
  let ?as = "alias_dns_records (snd (main accepting_world))"
  note c6 = C6_alias_records [OF accepting_main_run accepting_zone]
  have "map (\<lambda>(n, a). RecordArgs.ZoneId a) ?as =
      map fst (map (\<lambda>(n, a). (RecordArgs.ZoneId a, RecordArgs.Aliases a)) ?as)"
    by (simp add: comp_def case_prod_unfold)
  also have "\<dots> = replicate 4 (String ''Z0123456789'')"
    using c6 by simp
  finally have "map (\<lambda>(n, a). RecordArgs.ZoneId a) ?as = replicate 4 (String ''Z0123456789'')" .
  with c6 accepting_main show ?thesis by simp
qed

text \<open>
  C7. The price class is a function of the environment name alone, defined for every
  name: \<open>PriceClass_All\<close> for \<open>prod\<close> and \<open>PriceClass_100\<close> for \<open>dev\<close> and for every
  other name. It is the price class of the distribution a run registers.
\<close>

theorem C7_priceClass:
  assumes "stack project environment site domain w NewContext = (None, ctx)"
  shows "priceClass environment_name =
      (if environment_name = ''prod'' then ''PriceClass_All'' else ''PriceClass_100'') \<and>
    priceClass ''dev'' = ''PriceClass_100'' \<and>
    priceClass ''prod'' = ''PriceClass_All'' \<and>
    map (\<lambda>(n, a). PriceClass a) (distributions ctx) =
      [String (priceClass (Environment.name environment))]"
proof -
  from stack_None [OF assms] obtain files domainZone where
    c: "calls ctx = map (\<lambda>r. (r, None)) (complete_run project environment site domain files domainZone)"
    by (auto simp: NewContext_def)
  have "map (\<lambda>(n, a). PriceClass a) (distributions ctx) =
      [String (priceClass (Environment.name environment))]"
    by (simp add: distributions_def registered_all [OF c] complete_run_def object_of_def
        cname_of_def alias_of_def comp_def)
  then show ?thesis by (simp add: priceClass_def)
qed

theorem C7_priceClass_witness:
  "fst (stack \<lparr>Project.name = ''stratusLabs''\<rparr> \<lparr>Environment.name = ''staging''\<rparr>
       \<lparr>dir = ''./www/_site''\<rparr> \<lparr>Domain.name = ''stratuslabs.net''\<rparr> accepting_world NewContext) = None \<and>
   priceClass ''staging'' = ''PriceClass_100'' \<and>
   map (\<lambda>(n, a). PriceClass a)
     (distributions (snd (stack \<lparr>Project.name = ''stratusLabs''\<rparr> \<lparr>Environment.name = ''staging''\<rparr>
       \<lparr>dir = ''./www/_site''\<rparr> \<lparr>Domain.name = ''stratuslabs.net''\<rparr> accepting_world NewContext))) =
     [String ''PriceClass_100'']"
proof -
  let ?run = "stack \<lparr>Project.name = ''stratusLabs''\<rparr> \<lparr>Environment.name = ''staging''\<rparr>
       \<lparr>dir = ''./www/_site''\<rparr> \<lparr>Domain.name = ''stratuslabs.net''\<rparr> accepting_world NewContext"
  have ok: "fst ?run = None" by (rule accepting_run)
  then have "?run = (None, snd ?run)" by (simp add: prod_eq_iff)
  from C7_priceClass [OF this, of "''staging''"] ok show ?thesis by simp
qed

text \<open>
  C8. A run without error registers one certificate: its domain name is the configured
  domain, its only subject alternative name is \<open>www.\<close> followed by the domain, and its
  validation method is \<open>DNS\<close>.
\<close>

theorem C8_certificate:
  assumes "stack project environment site domain w NewContext = (None, ctx)"
  shows "certificates ctx =
      [(Project.name project @ ''Cert'',
        \<lparr>CertificateArgs.DomainName = String (Domain.name domain),
         ValidationMethod = String ''DNS'',
         SubjectAlternativeNames = [String (''www.'' @ Domain.name domain)],
         CertificateArgs.Tags = [''project'' \<mapsto> Project.name project,
                                 ''environment'' \<mapsto> Environment.name environment]\<rparr>)]"
proof -
  from complete_run_exists [OF assms] obtain files domainZone where
    r: "registered ctx = complete_run project environment site domain files domainZone" by blast
  show ?thesis
    unfolding certificates_def r
    by (simp add: complete_run_def no_objects_elsewhere cname_of_def alias_of_def tags_of_def)
qed

theorem C8_certificate_witness:
  "fst (main accepting_world) = None \<and>
   map (\<lambda>(n, a). (n, CertificateArgs.DomainName a, SubjectAlternativeNames a, ValidationMethod a))
     (certificates (snd (main accepting_world))) =
     [(''stratusLabsCert'', String ''stratuslabs.net'', [String ''www.stratuslabs.net''],
       String ''DNS'')]"
  using C8_certificate [OF accepting_main_run] accepting_main by simp

text \<open>
  C9. A run without error exports exactly two values, in this order: \<open>bucketName\<close>, the
  id of the bucket it registered, and \<open>cloudFrontDist\<close>, the id of the distribution it
  registered.
\<close>

theorem C9_exports:
  assumes "stack project environment site domain w NewContext = (None, ctx)"
  shows "exports ctx =
      [(''bucketName'', ID (Handle KBucket (Project.name project @ ''Bucket''))),
       (''cloudFrontDist'', ID (Handle KDistribution (Project.name project @ ''Distribution'')))] \<and>
     map fst (buckets ctx) = [Project.name project @ ''Bucket''] \<and>
     map fst (distributions ctx) = [Project.name project @ ''Distribution'']"
proof -
  from stack_None [OF assms] obtain files domainZone where
    c: "calls ctx = map (\<lambda>r. (r, None)) (complete_run project environment site domain files domainZone)"
    and e: "exports ctx =
       [(''bucketName'', ID (bucket_of project)),
        (''cloudFrontDist'', ID (cloudFrontDist_of project))]"
    by (auto simp: NewContext_def)
  show ?thesis
    by (simp add: e bucket_of_def cloudFrontDist_of_def buckets_def distributions_def
        registered_all [OF c] complete_run_def object_of_def cname_of_def alias_of_def comp_def)
qed

theorem C9_exports_witness:
  "fst (main accepting_world) = None \<and>
   exports (snd (main accepting_world)) =
      [(''bucketName'', ID (Handle KBucket ''stratusLabsBucket'')),
       (''cloudFrontDist'', ID (Handle KDistribution ''stratusLabsDistribution''))]"
  using C9_exports [OF accepting_main_run] accepting_main by simp

text \<open>
  C10. A run without error registers one public access block: it is for the id of the
  bucket the run registered, and all four of its settings (block public ACLs, block
  public policy, ignore public ACLs, restrict public buckets) are true.
\<close>

theorem C10_public_access_block:
  assumes "stack project environment site domain w NewContext = (None, ctx)"
  shows "map fst (buckets ctx) = [Project.name project @ ''Bucket''] \<and>
    public_access_blocks ctx =
      [(Project.name project @ ''BucketNoPublic'',
        \<lparr>BucketPublicAccessBlockArgs.Bucket = ID (Handle KBucket (Project.name project @ ''Bucket'')),
         BlockPublicAcls = True,
         BlockPublicPolicy = True,
         IgnorePublicAcls = True,
         RestrictPublicBuckets = True\<rparr>)]"
proof -
  from complete_run_exists [OF assms] obtain files domainZone where
    r: "registered ctx = complete_run project environment site domain files domainZone" by blast
  show ?thesis
    unfolding buckets_def public_access_blocks_def r
    by (simp add: complete_run_def no_objects_elsewhere cname_of_def alias_of_def bucket_of_def)
qed

theorem C10_public_access_block_witness:
  "fst (main accepting_world) = None \<and>
   public_access_blocks (snd (main accepting_world)) =
     [(''stratusLabsBucketNoPublic'',
       \<lparr>BucketPublicAccessBlockArgs.Bucket = ID (Handle KBucket ''stratusLabsBucket''),
        BlockPublicAcls = True,
        BlockPublicPolicy = True,
        IgnorePublicAcls = True,
        RestrictPublicBuckets = True\<rparr>)]"
  using C10_public_access_block [OF accepting_main_run] accepting_main by simp

end
